theory Spec2Isabelle
  imports Main "HOL-Library.Word"
begin

section \<open>Data model of complaint.go\<close>

text \<open>
  A \<open>primitive.ObjectID\<close> is an array of twelve bytes; it is read here as one 96-bit word,
  most significant byte first. Two identifiers are equal exactly when their bytes are.
\<close>

type_synonym ObjectID = "96 word"

text \<open>
  The two structs of the program. Only \<open>ID\<close> carries a bson tag (\<open>_id\<close>); the driver
  stores every other field under its lower-cased name, which is the name the handlers'
  filters use (\<open>secretcode\<close>, \<open>userid\<close>, \<open>complaints\<close>, \<open>resolved\<close>). A filter on a
  bson field is therefore a predicate on the corresponding field of the record.
\<close>

record User =
  ID :: ObjectID
  SecretCode :: string
  Name :: string
  Email :: string
  Complaints :: "ObjectID list"

record Complaint =
  ID :: ObjectID
  Title :: string
  Summary :: string
  Rating :: int
  Resolved :: bool
  UserID :: ObjectID

text \<open>
  The database \<open>complaintsPortal\<close> with its two collections. A collection is the list of
  its documents in insertion order, the order in which the server scans it.
\<close>

record Database =
  users :: "User list"
  complaints :: "Complaint list"

section \<open>What a request takes from its environment\<close>

text \<open>
  Three things a handler uses are not computed from its arguments: the identifier
  \<open>primitive.NewObjectID()\<close> hands out, the number \<open>math/rand\<close> draws, and whether a
  round trip to the database server completes. Each request carries them in an \<open>Env\<close>:
  \<open>roundTripFails env k\<close> tells whether the \<open>k\<close>-th storage call the handler issues
  (counted from 0) comes back with an error of the transport or of the server. A call that
  comes back with an error has changed nothing.

  \<open>primitive.NewObjectID()\<close> starts an identifier with the current Unix time, so it does not
  hand out the all-zero identifier, the only value for which the \<open>omitempty\<close> of the \<open>_id\<close>
  tag would drop the field on insert.
\<close>

record Env =
  NewObjectID :: ObjectID
  randSource :: nat
  roundTripFails :: "nat \<Rightarrow> bool"

text \<open>\<open>rand.Intn(n)\<close> yields a number in the half-open interval from 0 to \<open>n\<close>.\<close>

definition Intn :: "Env \<Rightarrow> nat \<Rightarrow> nat" where
  "Intn env n = randSource env mod n"

section \<open>Storage calls\<close>

datatype error = ErrNoDocuments | ErrDuplicateKey | ErrRoundTrip

datatype StorageOp = FindOneOp string | FindOp string | InsertOneOp string | UpdateOneOp string

text \<open>
  \<open>FindOne(filter).Decode(&v)\<close>: the first document that satisfies the filter, the error
  \<open>ErrNoDocuments\<close> when there is none.
\<close>

definition FindOne :: "bool \<Rightarrow> ('d \<Rightarrow> bool) \<Rightarrow> 'd list \<Rightarrow> error + 'd" where
  "FindOne fails flt coll =
     (if fails then Inl ErrRoundTrip
      else case find flt coll of None \<Rightarrow> Inl ErrNoDocuments | Some d \<Rightarrow> Inr d)"

text \<open>\<open>Find(filter)\<close>: a cursor over the documents that satisfy the filter.\<close>

definition Find :: "bool \<Rightarrow> ('d \<Rightarrow> bool) \<Rightarrow> 'd list \<Rightarrow> error + 'd list" where
  "Find fails flt coll = (if fails then Inl ErrRoundTrip else Inr (filter flt coll))"

text \<open>
  \<open>InsertOne(doc)\<close>: the collection's index on \<open>_id\<close> is unique, so a document whose
  identifier is already present is refused. A call that fails stores nothing.
\<close>

definition InsertOne :: "bool \<Rightarrow> ('d \<Rightarrow> ObjectID) \<Rightarrow> 'd \<Rightarrow> 'd list \<Rightarrow> error + 'd list" where
  "InsertOne fails idOf doc coll =
     (if fails then Inl ErrRoundTrip
      else if idOf doc \<in> idOf ` set coll then Inl ErrDuplicateKey
      else Inr (coll @ [doc]))"

text \<open>
  \<open>UpdateOne(filter, {$set: ...})\<close>: the first document that satisfies the filter is
  changed; when none does, the call succeeds all the same and changes nothing.
\<close>

fun updateFirst :: "('d \<Rightarrow> bool) \<Rightarrow> ('d \<Rightarrow> 'd) \<Rightarrow> 'd list \<Rightarrow> 'd list" where
  "updateFirst flt upd [] = []"
| "updateFirst flt upd (d # ds) = (if flt d then upd d # ds else d # updateFirst flt upd ds)"

definition UpdateOne :: "bool \<Rightarrow> ('d \<Rightarrow> bool) \<Rightarrow> ('d \<Rightarrow> 'd) \<Rightarrow> 'd list \<Rightarrow> error + 'd list" where
  "UpdateOne fails flt upd coll =
     (if fails then Inl ErrRoundTrip else Inr (updateFirst flt upd coll))"

section \<open>Responses\<close>

datatype Body =
    Text string
  | ErrorText error
  | JSON_User User
  | JSON_Complaint Complaint
  | JSON_Complaints "Complaint list"

datatype Response = Response (status: nat) (body: Body)

definition StatusOK :: nat where "StatusOK = 200"
definition StatusBadRequest :: nat where "StatusBadRequest = 400"
definition StatusNotFound :: nat where "StatusNotFound = 404"
definition StatusInternalServerError :: nat where "StatusInternalServerError = 500"

text \<open>\<open>http.Error(w, msg, code)\<close> and \<open>json.NewEncoder(w).Encode(v)\<close>.\<close>

definition http_Error :: "Body \<Rightarrow> nat \<Rightarrow> Response" where
  "http_Error msg code = Response code msg"

definition Encode :: "Body \<Rightarrow> Response" where
  "Encode v = Response StatusOK v"

text \<open>
  What a handler leaves behind: the response written, the database after the request, and
  the storage calls it issued, in order.
\<close>

record Outcome =
  response :: Response
  store :: Database
  issued :: "StorageOp list"

section \<open>Secret codes\<close>

text \<open>\<open>fmt.Sprintf("%06d", n)\<close> for a non-negative \<open>n\<close>: decimal digits, padded on the left
  with zeros to six characters.\<close>

definition digitChar :: "nat \<Rightarrow> char" where
  "digitChar d = char_of (48 + d)"

fun decimal :: "nat \<Rightarrow> string" where
  "decimal n = (if n < 10 then [digitChar n] else decimal (n div 10) @ [digitChar (n mod 10)])"

definition Sprintf_06d :: "nat \<Rightarrow> string" where
  "Sprintf_06d n = replicate (6 - length (decimal n)) (CHR ''0'') @ decimal n"

definition generateSecretCode :: "Env \<Rightarrow> string" where
  "generateSecretCode env = Sprintf_06d (Intn env 1000000)"

definition isDigit :: "char \<Rightarrow> bool" where
  "isDigit c = (48 \<le> (of_char c :: nat) \<and> (of_char c :: nat) \<le> 57)"

section \<open>Identifiers in query strings\<close>

text \<open>
  \<open>primitive.ObjectIDFromHex\<close>: the string must be 24 bytes long and consist of
  hexadecimal digits of either case; it denotes the twelve bytes it spells.
\<close>

definition fromHexChar :: "char \<Rightarrow> nat option" where
  "fromHexChar c =
     (let n = of_char c :: nat in
      if 48 \<le> n \<and> n \<le> 57 then Some (n - 48)
      else if 97 \<le> n \<and> n \<le> 102 then Some (n - 87)
      else if 65 \<le> n \<and> n \<le> 70 then Some (n - 55)
      else None)"

fun hexValue :: "nat \<Rightarrow> string \<Rightarrow> nat option" where
  "hexValue acc [] = Some acc"
| "hexValue acc (c # cs) =
     (case fromHexChar c of None \<Rightarrow> None | Some d \<Rightarrow> hexValue (16 * acc + d) cs)"

definition ObjectIDFromHex :: "string \<Rightarrow> ObjectID option" where
  "ObjectIDFromHex s =
     (if length s \<noteq> 24 then None else map_option word_of_nat (hexValue 0 s))"

section \<open>The handlers\<close>

text \<open>
  A request body is given as what \<open>json.NewDecoder(r.Body).Decode\<close> makes of it: the text
  of the decoding error, or the decoded struct (fields the body leaves out are zero, fields
  it sets are set, whichever they are).
\<close>

definition loginHandler :: "Env \<Rightarrow> Database \<Rightarrow> string \<Rightarrow> Outcome" where
  "loginHandler env db secretCode =
     (case FindOne (roundTripFails env 0) (\<lambda>u. SecretCode u = secretCode) (users db) of
        Inl err \<Rightarrow>
          \<lparr>response = http_Error (Text ''User not found'') StatusNotFound,
           store = db, issued = [FindOneOp ''users'']\<rparr>
      | Inr user \<Rightarrow>
          \<lparr>response = Encode (JSON_User user), store = db, issued = [FindOneOp ''users'']\<rparr>)"

definition registerHandler :: "Env \<Rightarrow> Database \<Rightarrow> string + User \<Rightarrow> Outcome" where
  "registerHandler env db reqBody =
     (case reqBody of
        Inl err \<Rightarrow>
          \<lparr>response = http_Error (Text err) StatusBadRequest, store = db, issued = []\<rparr>
      | Inr decoded \<Rightarrow>
          (let user = decoded\<lparr>User.ID := NewObjectID env,
                              SecretCode := generateSecretCode env,
                              Complaints := []\<rparr>
           in case InsertOne (roundTripFails env 0) User.ID user (users db) of
                Inl err \<Rightarrow>
                  \<lparr>response = http_Error (ErrorText err) StatusInternalServerError,
                   store = db, issued = [InsertOneOp ''users'']\<rparr>
              | Inr us \<Rightarrow>
                  \<lparr>response = Encode (JSON_User user),
                   store = db\<lparr>users := us\<rparr>, issued = [InsertOneOp ''users'']\<rparr>))"

definition submitComplaintHandler :: "Env \<Rightarrow> Database \<Rightarrow> string + Complaint \<Rightarrow> Outcome" where
  "submitComplaintHandler env db reqBody =
     (case reqBody of
        Inl err \<Rightarrow>
          \<lparr>response = http_Error (Text err) StatusBadRequest, store = db, issued = []\<rparr>
      | Inr decoded \<Rightarrow>
          (let complaint = decoded\<lparr>Complaint.ID := NewObjectID env, Resolved := False\<rparr>
           in case InsertOne (roundTripFails env 0) Complaint.ID complaint (complaints db) of
                Inl err \<Rightarrow>
                  \<lparr>response = http_Error (ErrorText err) StatusInternalServerError,
                   store = db, issued = [InsertOneOp ''complaints'']\<rparr>
              | Inr cs \<Rightarrow>
                  (let db1 = db\<lparr>complaints := cs\<rparr>
                   in case FindOne (roundTripFails env 1)
                             (\<lambda>u. User.ID u = UserID complaint) (users db1) of
                        Inl err \<Rightarrow>
                          \<lparr>response = Encode (JSON_Complaint complaint), store = db1,
                           issued = [InsertOneOp ''complaints'', FindOneOp ''users'']\<rparr>
                      | Inr found \<Rightarrow>
                          (let user = found\<lparr>Complaints :=
                                               Complaints found @ [Complaint.ID complaint]\<rparr>;
                               db2 = (case UpdateOne (roundTripFails env 2)
                                             (\<lambda>u. User.ID u = User.ID user)
                                             (\<lambda>u. u\<lparr>Complaints := Complaints user\<rparr>)
                                             (users db1) of
                                        Inl err \<Rightarrow> db1
                                      | Inr us \<Rightarrow> db1\<lparr>users := us\<rparr>)
                           in \<lparr>response = Encode (JSON_Complaint complaint), store = db2,
                               issued = [InsertOneOp ''complaints'', FindOneOp ''users'',
                                         UpdateOneOp ''users'']\<rparr>))))"

text \<open>
  The loop \<open>for cursor.Next(ctx) { ...; xs = append(xs, complaint) }\<close>. The collections hold
  only documents the handlers stored, so \<open>cursor.Decode\<close> into the struct succeeds on each.
  A slice that stays \<open>nil\<close> is encoded as JSON \<open>null\<close>; the list \<open>[]\<close> stands for it.
\<close>

fun drain :: "Complaint list \<Rightarrow> Complaint list \<Rightarrow> Complaint list" where
  "drain [] acc = acc"
| "drain (complaint # cursor) acc = drain cursor (acc @ [complaint])"

definition getAllComplaintsForUserHandler :: "Env \<Rightarrow> Database \<Rightarrow> string \<Rightarrow> Outcome" where
  "getAllComplaintsForUserHandler env db secretCode =
     (case FindOne (roundTripFails env 0) (\<lambda>u. SecretCode u = secretCode) (users db) of
        Inl err \<Rightarrow>
          \<lparr>response = http_Error (Text ''User not found'') StatusNotFound,
           store = db, issued = [FindOneOp ''users'']\<rparr>
      | Inr user \<Rightarrow>
          (case Find (roundTripFails env 1) (\<lambda>c. UserID c = User.ID user) (complaints db) of
             Inl err \<Rightarrow>
               \<lparr>response = http_Error (ErrorText err) StatusInternalServerError,
                store = db, issued = [FindOneOp ''users'', FindOp ''complaints'']\<rparr>
           | Inr cursor \<Rightarrow>
               \<lparr>response = Encode (JSON_Complaints (drain cursor [])),
                store = db, issued = [FindOneOp ''users'', FindOp ''complaints'']\<rparr>))"

definition getAllComplaintsForAdminHandler :: "Env \<Rightarrow> Database \<Rightarrow> Outcome" where
  "getAllComplaintsForAdminHandler env db =
     (case Find (roundTripFails env 0) (\<lambda>c. True) (complaints db) of
        Inl err \<Rightarrow>
          \<lparr>response = http_Error (ErrorText err) StatusInternalServerError,
           store = db, issued = [FindOp ''complaints'']\<rparr>
      | Inr cursor \<Rightarrow>
          \<lparr>response = Encode (JSON_Complaints (drain cursor [])),
           store = db, issued = [FindOp ''complaints'']\<rparr>)"

definition viewComplaintHandler :: "Env \<Rightarrow> Database \<Rightarrow> string \<Rightarrow> Outcome" where
  "viewComplaintHandler env db complaintID =
     (case ObjectIDFromHex complaintID of
        None \<Rightarrow>
          \<lparr>response = http_Error (Text ''Invalid complaint ID'') StatusBadRequest,
           store = db, issued = []\<rparr>
      | Some oid \<Rightarrow>
          (case FindOne (roundTripFails env 0) (\<lambda>c. Complaint.ID c = oid) (complaints db) of
             Inl err \<Rightarrow>
               \<lparr>response = http_Error (Text ''Complaint not found'') StatusNotFound,
                store = db, issued = [FindOneOp ''complaints'']\<rparr>
           | Inr complaint \<Rightarrow>
               \<lparr>response = Encode (JSON_Complaint complaint),
                store = db, issued = [FindOneOp ''complaints'']\<rparr>))"

definition resolveComplaintHandler :: "Env \<Rightarrow> Database \<Rightarrow> string \<Rightarrow> Outcome" where
  "resolveComplaintHandler env db complaintID =
     (case ObjectIDFromHex complaintID of
        None \<Rightarrow>
          \<lparr>response = http_Error (Text ''Invalid complaint ID'') StatusBadRequest,
           store = db, issued = []\<rparr>
      | Some oid \<Rightarrow>
          (case FindOne (roundTripFails env 0) (\<lambda>c. Complaint.ID c = oid) (complaints db) of
             Inl err \<Rightarrow>
               \<lparr>response = http_Error (Text ''Complaint not found'') StatusNotFound,
                store = db, issued = [FindOneOp ''complaints'']\<rparr>
           | Inr found \<Rightarrow>
               (let complaint = found\<lparr>Resolved := True\<rparr>
                in case UpdateOne (roundTripFails env 1) (\<lambda>c. Complaint.ID c = oid)
                          (\<lambda>c. c\<lparr>Resolved := Resolved complaint\<rparr>) (complaints db) of
                     Inl err \<Rightarrow>
                       \<lparr>response = http_Error (ErrorText err) StatusInternalServerError,
                        store = db,
                        issued = [FindOneOp ''complaints'', UpdateOneOp ''complaints'']\<rparr>
                   | Inr cs \<Rightarrow>
                       \<lparr>response = Encode (JSON_Complaint complaint),
                        store = db\<lparr>complaints := cs\<rparr>,
                        issued = [FindOneOp ''complaints'', UpdateOneOp ''complaints'']\<rparr>)))"

section \<open>The route table\<close>

datatype Request =
    Login string
  | Register "string + User"
  | SubmitComplaint "string + Complaint"
  | GetAllComplaintsForUser string
  | GetAllComplaintsForAdmin
  | ViewComplaint string
  | ResolveComplaint string

fun serve :: "Env \<Rightarrow> Database \<Rightarrow> Request \<Rightarrow> Outcome" where
  "serve env db (Login secretCode) = loginHandler env db secretCode"
| "serve env db (Register reqBody) = registerHandler env db reqBody"
| "serve env db (SubmitComplaint reqBody) = submitComplaintHandler env db reqBody"
| "serve env db (GetAllComplaintsForUser secretCode) =
     getAllComplaintsForUserHandler env db secretCode"
| "serve env db GetAllComplaintsForAdmin = getAllComplaintsForAdminHandler env db"
| "serve env db (ViewComplaint complaintID) = viewComplaintHandler env db complaintID"
| "serve env db (ResolveComplaint complaintID) = resolveComplaintHandler env db complaintID"

text \<open>Requests served one after the other, each with its own environment.\<close>

fun serveAll :: "Database \<Rightarrow> (Env \<times> Request) list \<Rightarrow> Database" where
  "serveAll db [] = db"
| "serveAll db ((env, req) # rest) = serveAll (store (serve env db req)) rest"

section \<open>Concrete requests and databases\<close>

definition upEnv :: "ObjectID \<Rightarrow> nat \<Rightarrow> Env" where
  "upEnv oid r = \<lparr>NewObjectID = oid, randSource = r, roundTripFails = (\<lambda>k. False)\<rparr>"

definition alice :: User where
  "alice = \<lparr>User.ID = 0x0A, SecretCode = ''000007'', Name = ''A'', Email = ''a@x.com'',
            Complaints = [0xC1]\<rparr>"

definition bob :: User where
  "bob = \<lparr>User.ID = 0x0B, SecretCode = ''000007'', Name = ''B'', Email = ''b@x.com'',
          Complaints = []\<rparr>"

definition noise :: Complaint where
  "noise = \<lparr>Complaint.ID = 0xC1, Title = ''T'', Summary = ''s'', Rating = 3,
            Resolved = False, UserID = 0x0A\<rparr>"

definition leak :: Complaint where
  "leak = \<lparr>Complaint.ID = 0xC2, Title = ''L'', Summary = ''l'', Rating = 1,
           Resolved = True, UserID = 0x0B\<rparr>"

definition db0 :: Database where
  "db0 = \<lparr>users = [alice, bob], complaints = [noise, leak]\<rparr>"

text \<open>A request body that sets the fields the server manages.\<close>

definition forgedUser :: User where
  "forgedUser = \<lparr>User.ID = 0x0B, SecretCode = ''letmein'', Name = ''C'', Email = ''c@x.com'',
                 Complaints = [0xC2]\<rparr>"

definition forgedComplaint :: Complaint where
  "forgedComplaint = \<lparr>Complaint.ID = 0xC1, Title = ''N'', Summary = ''n'', Rating = 5,
                      Resolved = True, UserID = 0x0A\<rparr>"

text \<open>The user that registering \<open>forgedUser\<close> creates when the environment hands out
  the identifier \<open>0x0C\<close> and the random number 4217.\<close>

definition carol :: User where
  "carol = \<lparr>User.ID = 0x0C, SecretCode = ''004217'', Name = ''C'', Email = ''c@x.com'',
            Complaints = []\<rparr>"

text \<open>An environment whose first round trip completes and whose later ones fail, and one
  in which every round trip fails.\<close>

definition downAfterFirst :: "ObjectID \<Rightarrow> Env" where
  "downAfterFirst oid = \<lparr>NewObjectID = oid, randSource = 0, roundTripFails = (\<lambda>k. 0 < k)\<rparr>"

definition downEnv :: Env where
  "downEnv = \<lparr>NewObjectID = 0, randSource = 0, roundTripFails = (\<lambda>k. True)\<rparr>"

text \<open>The complaint that submitting \<open>forgedComplaint\<close> creates under the identifier
  \<open>0xC3\<close>, and a submission whose \<open>userId\<close> no user carries, with the complaint it
  creates.\<close>

definition filed :: Complaint where
  "filed = \<lparr>Complaint.ID = 0xC3, Title = ''N'', Summary = ''n'', Rating = 5,
            Resolved = False, UserID = 0x0A\<rparr>"

definition orphanBody :: Complaint where
  "orphanBody = \<lparr>Complaint.ID = 0, Title = ''O'', Summary = ''o'', Rating = 2,
                 Resolved = False, UserID = 0x99\<rparr>"

definition orphan :: Complaint where
  "orphan = \<lparr>Complaint.ID = 0xC3, Title = ''O'', Summary = ''o'', Rating = 2,
             Resolved = False, UserID = 0x99\<rparr>"

text \<open>A run: a complaint is submitted for alice, then the two complaints stored before are
  resolved, the second of which was resolved already.\<close>

definition sampleRun :: "(Env \<times> Request) list" where
  "sampleRun =
     [(upEnv 0xC3 0, SubmitComplaint (Inr forgedComplaint)),
      (upEnv 0 0, ResolveComplaint ''0000000000000000000000c1''),
      (upEnv 0 0, ResolveComplaint ''0000000000000000000000C2'')]"

section \<open>Relating two states of the complaints collection\<close>

text \<open>
  \<open>keepsResolved cs cs'\<close>: every document of \<open>cs\<close> is still at its place in \<open>cs'\<close>,
  either as it was or with its \<open>resolved\<close> field set.
\<close>

definition keepsResolved :: "Complaint list \<Rightarrow> Complaint list \<Rightarrow> bool" where
  "keepsResolved cs cs' =
     (length cs \<le> length cs' \<and>
      (\<forall>i<length cs. cs' ! i = cs ! i \<or> cs' ! i = (cs ! i)\<lparr>Resolved := True\<rparr>))"

declare decimal.simps [simp del]

lemmas storage_defs = FindOne_def Find_def InsertOne_def UpdateOne_def
lemmas response_defs = http_Error_def Encode_def StatusOK_def StatusBadRequest_def
  StatusNotFound_def StatusInternalServerError_def
section \<open>Facts about the storage calls\<close>

lemma find_first:
  "\<forall>x\<in>set pre. \<not> P x \<Longrightarrow> P d \<Longrightarrow> find P (pre @ d # post) = Some d"
  by (induction pre) auto

lemma find_none: "\<forall>x\<in>set xs. \<not> P x \<Longrightarrow> find P xs = None"
  by (induction xs) auto

lemma find_SomeD: "find P xs = Some d \<Longrightarrow> d \<in> set xs \<and> P d"
  by (induction xs) (auto split: if_splits)

lemma updateFirst_first:
  "\<forall>x\<in>set pre. \<not> P x \<Longrightarrow> P d \<Longrightarrow> updateFirst P f (pre @ d # post) = pre @ f d # post"
  by (induction pre) auto

lemma updateFirst_none: "\<forall>x\<in>set xs. \<not> P x \<Longrightarrow> updateFirst P f xs = xs"
  by (induction xs) auto


lemma FindOne_first:
  "\<not> fails \<Longrightarrow> \<forall>x\<in>set pre. \<not> P x \<Longrightarrow> P d \<Longrightarrow> FindOne fails P (pre @ d # post) = Inr d"
  by (simp add: FindOne_def find_first)

section \<open>Secret codes are six decimal digits\<close>

lemma length_decimal_le: "n < 10 ^ k \<Longrightarrow> 0 < k \<Longrightarrow> length (decimal n) \<le> k"
proof (induction n arbitrary: k rule: decimal.induct)
  case (1 n)
  show ?case
  proof (cases "n < 10")
    case True
    with 1(3) show ?thesis by (subst decimal.simps) simp
  next
    case False
    from 1(3) obtain j where k: "k = Suc j" by (cases k) auto
    from False 1(2) k have "0 < j" by (cases j) auto
    moreover from 1(2) k have "n div 10 < 10 ^ j" by (simp add: less_mult_imp_div_less)
    ultimately have "length (decimal (n div 10)) \<le> j" using 1(1)[OF False] by blast
    with False k show ?thesis by (subst decimal.simps) simp
  qed
qed

lemma isDigit_digitChar: "d < 10 \<Longrightarrow> isDigit (digitChar d)"
  by (simp add: isDigit_def digitChar_def)

lemma decimal_digits: "c \<in> set (decimal n) \<Longrightarrow> isDigit c"
proof (induction n rule: decimal.induct)
  case (1 n)
  show ?case
  proof (cases "n < 10")
    case True
    with 1(2) show ?thesis by (subst (asm) decimal.simps) (simp add: isDigit_digitChar)
  next
    case False
    then have "decimal n = decimal (n div 10) @ [digitChar (n mod 10)]"
      by (subst decimal.simps) simp
    with 1(2) have "c \<in> set (decimal (n div 10)) \<or> c = digitChar (n mod 10)"
      by auto
    with 1(1)[OF False] show ?thesis by (auto simp: isDigit_digitChar)
  qed
qed

lemma isDigit_zero: "isDigit (CHR ''0'')"
  by (simp add: isDigit_def)

lemma Sprintf_06d_length: "n < 1000000 \<Longrightarrow> length (Sprintf_06d n) = 6"
  using length_decimal_le [of n 6] by (simp add: Sprintf_06d_def)

lemma Sprintf_06d_digits: "c \<in> set (Sprintf_06d n) \<Longrightarrow> isDigit c"
  by (auto simp: Sprintf_06d_def isDigit_zero decimal_digits)

lemma Intn_less: "0 < n \<Longrightarrow> Intn env n < n"
  by (simp add: Intn_def)

lemma generateSecretCode_shape:
  "length (generateSecretCode env) = 6 \<and> (\<forall>c\<in>set (generateSecretCode env). isDigit c)"
  by (simp add: generateSecretCode_def Sprintf_06d_length Intn_less Sprintf_06d_digits)

lemma generateSecretCode_range: "\<exists>k<1000000. generateSecretCode env = Sprintf_06d k"
  unfolding generateSecretCode_def
  by (intro exI [of _ "Intn env 1000000"]) (simp add: Intn_less)

lemma decimal_4217: "decimal 4217 = ''4217''"
  by (simp add: decimal.simps digitChar_def char_of_def bit_0)

lemma Sprintf_06d_4217: "Sprintf_06d 4217 = ''004217''"
  unfolding Sprintf_06d_def decimal_4217 by (simp add: numeral_2_eq_2)

lemma generateSecretCode_4217: "generateSecretCode (upEnv oid 4217) = ''004217''"
  by (simp add: generateSecretCode_def Intn_def upEnv_def Sprintf_06d_4217)

section \<open>Parsing sample identifiers\<close>

lemma ObjectIDFromHex_c1: "ObjectIDFromHex ''0000000000000000000000c1'' = Some 0xC1"
  by (simp add: ObjectIDFromHex_def fromHexChar_def)

lemma ObjectIDFromHex_C2: "ObjectIDFromHex ''0000000000000000000000C2'' = Some 0xC2"
  by (simp add: ObjectIDFromHex_def fromHexChar_def)

lemma ObjectIDFromHex_c9: "ObjectIDFromHex ''0000000000000000000000c9'' = Some 0xC9"
  by (simp add: ObjectIDFromHex_def fromHexChar_def)

lemma ObjectIDFromHex_short: "ObjectIDFromHex ''c1'' = None"
  by (simp add: ObjectIDFromHex_def)

section \<open>Documents keep their place\<close>

lemma keepsResolved_refl: "keepsResolved cs cs"
  by (simp add: keepsResolved_def)

lemma keepsResolved_trans:
  assumes "keepsResolved as bs" and "keepsResolved bs cs"
  shows "keepsResolved as cs"
  unfolding keepsResolved_def
proof (intro conjI allI impI)
  from assms show "length as \<le> length cs" by (simp add: keepsResolved_def)
next
  fix i assume i: "i < length as"
  with assms(1) have ib: "i < length bs" by (simp add: keepsResolved_def)
  from assms(1) i have "bs ! i = as ! i \<or> bs ! i = (as ! i)\<lparr>Resolved := True\<rparr>"
    by (simp add: keepsResolved_def)
  moreover from assms(2) ib have "cs ! i = bs ! i \<or> cs ! i = (bs ! i)\<lparr>Resolved := True\<rparr>"
    by (simp add: keepsResolved_def)
  ultimately show "cs ! i = as ! i \<or> cs ! i = (as ! i)\<lparr>Resolved := True\<rparr>"
    by auto
qed

lemma keepsResolved_snoc: "keepsResolved cs (cs @ [c])"
  by (simp add: keepsResolved_def nth_append)

lemma keepsResolved_updateFirst:
  "keepsResolved cs (updateFirst P (\<lambda>c. c\<lparr>Resolved := True\<rparr>) cs)"
proof (induction cs)
  case Nil
  show ?case by (simp add: keepsResolved_def)
next
  case (Cons c cs)
  show ?case
  proof (cases "P c")
    case True
    then show ?thesis by (simp add: keepsResolved_def nth_Cons split: nat.splits)
  next
    case False
    with Cons show ?thesis by (auto simp: keepsResolved_def nth_Cons split: nat.splits)
  qed
qed

lemma submit_keepsResolved:
  "keepsResolved (complaints db) (complaints (store (submitComplaintHandler env db reqBody)))"
  by (auto simp: submitComplaintHandler_def storage_defs Let_def keepsResolved_refl
                 keepsResolved_snoc
           split: sum.splits option.splits)

lemma resolve_keepsResolved:
  "keepsResolved (complaints db) (complaints (store (resolveComplaintHandler env db complaintID)))"
  by (auto simp: resolveComplaintHandler_def storage_defs Let_def keepsResolved_refl
                 keepsResolved_updateFirst
           split: sum.splits option.splits)

lemma serve_keepsResolved:
  "keepsResolved (complaints db) (complaints (store (serve env db req)))"
proof (cases req)
  case (Login x)
  then show ?thesis by (simp add: loginHandler_def keepsResolved_refl split: sum.splits)
next
  case (Register x)
  then show ?thesis
    by (auto simp: registerHandler_def Let_def keepsResolved_refl split: sum.splits)
next
  case (SubmitComplaint x)
  then show ?thesis by (simp add: submit_keepsResolved)
next
  case (GetAllComplaintsForUser x)
  then show ?thesis
    by (simp add: getAllComplaintsForUserHandler_def keepsResolved_refl split: sum.splits)
next
  case GetAllComplaintsForAdmin
  then show ?thesis
    by (simp add: getAllComplaintsForAdminHandler_def keepsResolved_refl split: sum.splits)
next
  case (ViewComplaint x)
  then show ?thesis
    by (simp add: viewComplaintHandler_def keepsResolved_refl split: sum.splits option.splits)
next
  case (ResolveComplaint x)
  then show ?thesis by (simp add: resolve_keepsResolved)
qed

lemma serveAll_keepsResolved:
  "keepsResolved (complaints db) (complaints (serveAll db reqs))"
proof (induction reqs arbitrary: db)
  case Nil
  show ?case by (simp add: keepsResolved_refl)
next
  case (Cons r reqs)
  obtain env req where r: "r = (env, req)" by (cases r)
  from serve_keepsResolved [of db env req] Cons.IH [of "store (serve env db req)"] r
  show ?case by (auto intro: keepsResolved_trans)
qed

lemma serve_creates_unresolved:
  "length (complaints db) < length (complaints (store (serve env db req))) \<Longrightarrow>
     \<not> Resolved (last (complaints (store (serve env db req))))
     \<and> Complaint.ID (last (complaints (store (serve env db req))))
         \<notin> Complaint.ID ` set (complaints db)
     \<and> butlast (complaints (store (serve env db req))) = complaints db"
proof (cases req)
  case (SubmitComplaint x)
  assume "length (complaints db) < length (complaints (store (serve env db req)))"
  with SubmitComplaint show ?thesis
    by (auto simp: submitComplaintHandler_def storage_defs Let_def
             split: sum.splits option.splits if_splits)
next
  case (ResolveComplaint x)
  have "length (updateFirst P f xs) = length xs" for P f and xs :: "Complaint list"
    by (induction xs) auto
  moreover assume "length (complaints db) < length (complaints (store (serve env db req)))"
  ultimately show ?thesis using ResolveComplaint
    by (auto simp: resolveComplaintHandler_def storage_defs Let_def
             split: sum.splits option.splits if_splits)
qed (auto simp: loginHandler_def registerHandler_def getAllComplaintsForUserHandler_def
       getAllComplaintsForAdminHandler_def viewComplaintHandler_def Let_def
     split: sum.splits option.splits)

lemma sampleRun_result:
  "complaints (serveAll db0 sampleRun) = [noise\<lparr>Resolved := True\<rparr>, leak, filed]"
  by (simp add: sampleRun_def submitComplaintHandler_def resolveComplaintHandler_def
                storage_defs Let_def ObjectIDFromHex_c1 ObjectIDFromHex_C2 upEnv_def
                db0_def noise_def leak_def filed_def forgedComplaint_def alice_def bob_def)

section \<open>Registration\<close>

text \<open>
  C1. A registration whose body decodes and whose insert goes through is answered with a
  user. Whenever a user is returned, its secret code is six characters, all of them decimal
  digits (the zero-padded rendering of a number below 1000000), its complaint list is empty,
  its identifier is the one just generated and is carried by no user stored before, name and
  e-mail are the body's, and the returned record is exactly the one appended to the
  \<open>users\<close> collection.
\<close>

theorem register_returns_created_user:
  "(\<not> roundTripFails env 0 \<and> NewObjectID env \<notin> User.ID ` set (users db) \<longrightarrow>
      (\<exists>u. response (registerHandler env db (Inr decoded)) = Response 200 (JSON_User u)))
   \<and> (\<forall>u. response (registerHandler env db (Inr decoded)) = Response 200 (JSON_User u) \<longrightarrow>
         length (SecretCode u) = 6 \<and> (\<forall>c\<in>set (SecretCode u). isDigit c)
       \<and> (\<exists>k<1000000. SecretCode u = Sprintf_06d k)
       \<and> Complaints u = []
       \<and> User.ID u = NewObjectID env \<and> User.ID u \<notin> User.ID ` set (users db)
       \<and> Name u = Name decoded \<and> Email u = Email decoded
       \<and> users (store (registerHandler env db (Inr decoded))) = users db @ [u]
       \<and> complaints (store (registerHandler env db (Inr decoded))) = complaints db)"
  using generateSecretCode_shape [of env] generateSecretCode_range [of env]
  by (auto simp: registerHandler_def InsertOne_def Encode_def http_Error_def Let_def
                 StatusOK_def StatusInternalServerError_def)

theorem register_returns_created_user_witness:
  "\<not> roundTripFails (upEnv 0x0C 4217) 0
   \<and> NewObjectID (upEnv 0x0C 4217) \<notin> User.ID ` set (users db0)
   \<and> response (registerHandler (upEnv 0x0C 4217) db0 (Inr forgedUser))
       = Response 200 (JSON_User carol)
   \<and> SecretCode carol = ''004217'' \<and> length (SecretCode carol) = 6
   \<and> list_all isDigit (SecretCode carol)
   \<and> Complaints carol = [] \<and> User.ID carol = 0x0C
   \<and> users (store (registerHandler (upEnv 0x0C 4217) db0 (Inr forgedUser)))
       = [alice, bob, carol]"
proof -
  have r: "response (registerHandler (upEnv 0x0C 4217) db0 (Inr forgedUser))
             = Response 200 (JSON_User carol)"
    by (simp add: registerHandler_def InsertOne_def generateSecretCode_4217 carol_def
                  forgedUser_def db0_def alice_def bob_def Let_def response_defs)
       (simp add: upEnv_def)
  from register_returns_created_user [of "upEnv 0x0C 4217" db0 forgedUser] r
  show ?thesis
    by (simp add: db0_def alice_def bob_def list_all_iff) (simp add: upEnv_def carol_def)
qed

section \<open>Complaint submission\<close>

text \<open>
  C2. Once \<open>InsertOne\<close> has stored the complaint, the handler answers 200 with the created
  complaint (the body's fields under the generated identifier, \<open>resolved\<close> false), and the
  complaint is the last document of the collection. Nothing is assumed about the two later
  storage calls or about the users stored: the lookup of the owner may fail or find nobody,
  the update of the owner's list may fail, and the response is the same. When no user
  carries the submitted \<open>userId\<close>, the users collection is left as it was.
\<close>

theorem submit_returns_complaint_regardless:
  assumes "complaint = decoded\<lparr>Complaint.ID := NewObjectID env, Resolved := False\<rparr>"
    and "InsertOne (roundTripFails env 0) Complaint.ID complaint (complaints db) = Inr cs"
  shows "response (submitComplaintHandler env db (Inr decoded)) = Response 200 (JSON_Complaint complaint)
       \<and> complaints (store (submitComplaintHandler env db (Inr decoded))) = complaints db @ [complaint]
       \<and> ((\<forall>u\<in>set (users db). User.ID u \<noteq> UserID decoded) \<longrightarrow>
            users (store (submitComplaintHandler env db (Inr decoded))) = users db)"
  using assms
  by (auto simp: submitComplaintHandler_def Let_def storage_defs response_defs find_none updateFirst_none
           split: sum.splits if_splits option.splits)

theorem submit_returns_complaint_regardless_witness:
  "InsertOne (roundTripFails (downAfterFirst 0xC3) 0) Complaint.ID filed (complaints db0)
     = Inr [noise, leak, filed]
   \<and> roundTripFails (downAfterFirst 0xC3) 1
   \<and> response (submitComplaintHandler (downAfterFirst 0xC3) db0 (Inr forgedComplaint))
       = Response 200 (JSON_Complaint filed)
   \<and> complaints (store (submitComplaintHandler (downAfterFirst 0xC3) db0 (Inr forgedComplaint)))
       = [noise, leak, filed]
   \<and> response (submitComplaintHandler (upEnv 0xC3 0) db0 (Inr orphanBody))
       = Response 200 (JSON_Complaint orphan)
   \<and> users (store (submitComplaintHandler (upEnv 0xC3 0) db0 (Inr orphanBody))) = [alice, bob]"
proof -
  have a: "filed = forgedComplaint\<lparr>Complaint.ID := NewObjectID (downAfterFirst 0xC3),
                                   Resolved := False\<rparr>"
    by (simp add: filed_def forgedComplaint_def downAfterFirst_def)
  have b: "InsertOne (roundTripFails (downAfterFirst 0xC3) 0) Complaint.ID filed (complaints db0)
             = Inr [noise, leak, filed]"
    by (simp add: InsertOne_def downAfterFirst_def db0_def filed_def noise_def leak_def)
  have c: "orphan = orphanBody\<lparr>Complaint.ID := NewObjectID (upEnv 0xC3 0), Resolved := False\<rparr>"
    by (simp add: orphan_def orphanBody_def upEnv_def)
  have d: "InsertOne (roundTripFails (upEnv 0xC3 0) 0) Complaint.ID orphan (complaints db0)
             = Inr [noise, leak, orphan]"
    by (simp add: InsertOne_def upEnv_def db0_def orphan_def noise_def leak_def)
  have e: "\<forall>u\<in>set (users db0). User.ID u \<noteq> UserID orphanBody"
    by (simp add: db0_def alice_def bob_def orphanBody_def)
  from submit_returns_complaint_regardless [OF a b]
       submit_returns_complaint_regardless [OF c d] b e
  show ?thesis
    by (simp add: db0_def) (simp add: downAfterFirst_def)
qed

section \<open>Viewing a complaint\<close>

text \<open>
  C3. A \<open>complaintId\<close> that does not parse is answered 400 with no storage call issued and
  the database untouched. One that parses while no stored complaint carries the identifier
  is answered 404. One that parses while a stored complaint carries it, the lookup
  completing, is answered 200 with that complaint, the first one in the collection with
  the identifier. Viewing never changes the database.
\<close>

theorem view_outcomes:
  "(ObjectIDFromHex complaintID = None \<longrightarrow>
      viewComplaintHandler env db complaintID
        = \<lparr>response = Response 400 (Text ''Invalid complaint ID''), store = db, issued = []\<rparr>)
   \<and> (ObjectIDFromHex complaintID = Some oid
        \<and> (\<forall>c\<in>set (complaints db). Complaint.ID c \<noteq> oid) \<longrightarrow>
        response (viewComplaintHandler env db complaintID)
          = Response 404 (Text ''Complaint not found''))
   \<and> (ObjectIDFromHex complaintID = Some oid
        \<and> \<not> roundTripFails env 0
        \<and> complaints db = pre @ c # post
        \<and> (\<forall>x\<in>set pre. Complaint.ID x \<noteq> oid) \<and> Complaint.ID c = oid \<longrightarrow>
        response (viewComplaintHandler env db complaintID) = Response 200 (JSON_Complaint c))
   \<and> store (viewComplaintHandler env db complaintID) = db"
  by (auto simp: viewComplaintHandler_def storage_defs response_defs find_none find_first
           split: option.splits)

theorem view_outcomes_witness:
  "ObjectIDFromHex ''c1'' = None
   \<and> viewComplaintHandler (upEnv 0 0) db0 ''c1''
       = \<lparr>response = Response 400 (Text ''Invalid complaint ID''), store = db0, issued = []\<rparr>
   \<and> ObjectIDFromHex ''0000000000000000000000c9'' = Some 0xC9
   \<and> response (viewComplaintHandler (upEnv 0 0) db0 ''0000000000000000000000c9'')
       = Response 404 (Text ''Complaint not found'')
   \<and> ObjectIDFromHex ''0000000000000000000000C2'' = Some 0xC2
   \<and> response (viewComplaintHandler (upEnv 0 0) db0 ''0000000000000000000000C2'')
       = Response 200 (JSON_Complaint leak)"
proof -
  have a: "\<forall>c\<in>set (complaints db0). Complaint.ID c \<noteq> 0xC9"
    by (simp add: db0_def noise_def leak_def)
  have b: "\<not> roundTripFails (upEnv 0 0) 0 \<and> complaints db0 = [noise] @ leak # []
           \<and> (\<forall>x\<in>set [noise]. Complaint.ID x \<noteq> 0xC2) \<and> Complaint.ID leak = 0xC2"
    by (simp add: upEnv_def db0_def noise_def leak_def)
  from view_outcomes [where complaintID = "''c1''" and env = "upEnv 0 0" and db = db0]
       view_outcomes [where complaintID = "''0000000000000000000000c9''" and oid = "0xC9"
                        and env = "upEnv 0 0" and db = db0]
       view_outcomes [where complaintID = "''0000000000000000000000C2''" and oid = "0xC2"
                        and env = "upEnv 0 0" and db = db0
                        and pre = "[noise]" and c = leak and post = "[]"]
       a b ObjectIDFromHex_short ObjectIDFromHex_c9 ObjectIDFromHex_C2
  show ?thesis by simp
qed

section \<open>Submission updates the owner\<close>

text \<open>
  C4. Let the complaint be inserted, let a user carry the submitted \<open>userId\<close>, and let the
  lookup and the update of that user complete. Then the stored user (the first in the
  collection with that identifier) has the new complaint's identifier appended at the end
  of its previous list and is otherwise unchanged, as are all other users. Fetching the
  user by identifier afterwards yields this record, and so does a login with the user's
  secret code, provided the code resolved to this user before.
\<close>

theorem submit_appends_to_owner:
  assumes "complaint = decoded\<lparr>Complaint.ID := NewObjectID env, Resolved := False\<rparr>"
    and "InsertOne (roundTripFails env 0) Complaint.ID complaint (complaints db) = Inr cs"
    and "\<not> roundTripFails env 1" and "\<not> roundTripFails env 2"
    and "users db = pre @ u # post"
    and "\<forall>x\<in>set pre. User.ID x \<noteq> UserID decoded"
    and "User.ID u = UserID decoded"
    and "db' = store (submitComplaintHandler env db (Inr decoded))"
    and "u' = u\<lparr>Complaints := Complaints u @ [Complaint.ID complaint]\<rparr>"
  shows "response (submitComplaintHandler env db (Inr decoded))
           = Response 200 (JSON_Complaint complaint)
       \<and> users db' = pre @ u' # post
       \<and> FindOne False (\<lambda>x. User.ID x = UserID decoded) (users db') = Inr u'
       \<and> last (Complaints u') = Complaint.ID complaint
       \<and> butlast (Complaints u') = Complaints u
       \<and> ((\<forall>x\<in>set pre. SecretCode x \<noteq> SecretCode u) \<and> \<not> roundTripFails env2 0 \<longrightarrow>
            response (loginHandler env2 db' (SecretCode u)) = Response 200 (JSON_User u'))"
proof -
  from assms(1-7)
  have out: "submitComplaintHandler env db (Inr decoded)
      = \<lparr>response = Response 200 (JSON_Complaint complaint),
         store = db\<lparr>complaints := cs, users := pre @ u' # post\<rparr>,
         issued = [InsertOneOp ''complaints'', FindOneOp ''users'', UpdateOneOp ''users'']\<rparr>"
    unfolding assms(9)
    by (simp add: submitComplaintHandler_def Let_def FindOne_def UpdateOne_def response_defs
                  find_first updateFirst_first)
  with assms(8) have us: "users db' = pre @ u' # post" by simp
  have id: "User.ID u' = UserID decoded" and code: "SecretCode u' = SecretCode u"
    using assms(7,9) by simp_all
  from us id assms(6)
  have fetch: "FindOne False (\<lambda>x. User.ID x = UserID decoded) (users db') = Inr u'"
    by (simp add: FindOne_first)
  have login: "(\<forall>x\<in>set pre. SecretCode x \<noteq> SecretCode u) \<and> \<not> roundTripFails env2 0 \<longrightarrow>
            response (loginHandler env2 db' (SecretCode u)) = Response 200 (JSON_User u')"
    using us code by (auto simp: loginHandler_def FindOne_def find_first response_defs)
  from out us fetch login assms(9) show ?thesis by simp
qed

theorem submit_appends_to_owner_witness:
  "InsertOne (roundTripFails (upEnv 0xC3 0) 0) Complaint.ID filed (complaints db0)
     = Inr [noise, leak, filed]
   \<and> users db0 = [] @ alice # [bob] \<and> User.ID alice = UserID forgedComplaint
   \<and> Complaints alice = [0xC1]
   \<and> response (submitComplaintHandler (upEnv 0xC3 0) db0 (Inr forgedComplaint))
       = Response 200 (JSON_Complaint filed)
   \<and> users (store (submitComplaintHandler (upEnv 0xC3 0) db0 (Inr forgedComplaint)))
       = [alice\<lparr>Complaints := [0xC1, 0xC3]\<rparr>, bob]
   \<and> response (loginHandler (upEnv 0 0)
                 (store (submitComplaintHandler (upEnv 0xC3 0) db0 (Inr forgedComplaint)))
                 ''000007'')
       = Response 200 (JSON_User (alice\<lparr>Complaints := [0xC1, 0xC3]\<rparr>))"
proof -
  have a: "filed = forgedComplaint\<lparr>Complaint.ID := NewObjectID (upEnv 0xC3 0),
                                   Resolved := False\<rparr>"
    by (simp add: filed_def forgedComplaint_def upEnv_def)
  have b: "InsertOne (roundTripFails (upEnv 0xC3 0) 0) Complaint.ID filed (complaints db0)
             = Inr [noise, leak, filed]"
    by (simp add: InsertOne_def upEnv_def db0_def filed_def noise_def leak_def)
  have c: "\<not> roundTripFails (upEnv 0xC3 0) 1" "\<not> roundTripFails (upEnv 0xC3 0) 2"
          "\<not> roundTripFails (upEnv 0 0) 0"
    by (simp_all add: upEnv_def)
  have d: "users db0 = [] @ alice # [bob]" by (simp add: db0_def)
  have e: "\<forall>x\<in>set []. User.ID x \<noteq> UserID forgedComplaint" by simp
  have f: "User.ID alice = UserID forgedComplaint" "Complaints alice = [0xC1]"
          "SecretCode alice = ''000007''" "Complaint.ID filed = 0xC3"
    by (simp_all add: alice_def forgedComplaint_def filed_def)
  from submit_appends_to_owner [OF a b c(1,2) d e f(1) refl refl, where ?env2.0 = "upEnv 0 0"]
       b c d f
  show ?thesis by simp
qed

section \<open>Resolving a complaint twice\<close>

text \<open>
  C5. Let a stored complaint carry the identifier the request names, and let the round trips
  of two successive resolve requests complete. Both requests are answered 200 with the
  complaint (the first in the collection with that identifier) with \<open>resolved\<close> true; after
  the first the stored document has \<open>resolved\<close> true and nothing else in the database has
  changed; the second leaves the database exactly as the first left it.
\<close>

theorem resolve_twice:
  assumes "ObjectIDFromHex complaintID = Some oid"
    and "complaints db = pre @ c # post"
    and "\<forall>x\<in>set pre. Complaint.ID x \<noteq> oid"
    and "Complaint.ID c = oid"
    and "\<not> roundTripFails env1 0" and "\<not> roundTripFails env1 1"
    and "\<not> roundTripFails env2 0" and "\<not> roundTripFails env2 1"
    and "db1 = store (resolveComplaintHandler env1 db complaintID)"
    and "db2 = store (resolveComplaintHandler env2 db1 complaintID)"
  shows "response (resolveComplaintHandler env1 db complaintID)
           = Response 200 (JSON_Complaint (c\<lparr>Resolved := True\<rparr>))
       \<and> response (resolveComplaintHandler env2 db1 complaintID)
           = Response 200 (JSON_Complaint (c\<lparr>Resolved := True\<rparr>))
       \<and> complaints db1 = pre @ c\<lparr>Resolved := True\<rparr> # post
       \<and> users db1 = users db
       \<and> db2 = db1"
proof -
  have first: "resolveComplaintHandler env1 db complaintID
      = \<lparr>response = Response 200 (JSON_Complaint (c\<lparr>Resolved := True\<rparr>)),
         store = db\<lparr>complaints := pre @ c\<lparr>Resolved := True\<rparr> # post\<rparr>,
         issued = [FindOneOp ''complaints'', UpdateOneOp ''complaints'']\<rparr>"
    using assms(1-6)
    by (simp add: resolveComplaintHandler_def storage_defs response_defs find_first
                  updateFirst_first Let_def)
  then have db1: "db1 = db\<lparr>complaints := pre @ c\<lparr>Resolved := True\<rparr> # post\<rparr>"
    using assms(9) by simp
  have "Complaint.ID (c\<lparr>Resolved := True\<rparr>) = oid"
    using assms(4) by simp
  with assms(1,3,7,8) db1
  have second: "resolveComplaintHandler env2 db1 complaintID
      = \<lparr>response = Response 200 (JSON_Complaint (c\<lparr>Resolved := True\<rparr>)),
         store = db1,
         issued = [FindOneOp ''complaints'', UpdateOneOp ''complaints'']\<rparr>"
    by (simp add: resolveComplaintHandler_def storage_defs response_defs find_first
                  updateFirst_first Let_def)
  from first second db1 assms(10) show ?thesis by simp
qed

theorem resolve_twice_witness:
  "ObjectIDFromHex ''0000000000000000000000c1'' = Some 0xC1
   \<and> complaints db0 = [] @ noise # [leak] \<and> Complaint.ID noise = 0xC1
   \<and> \<not> Resolved noise
   \<and> response (resolveComplaintHandler (upEnv 0 0) db0 ''0000000000000000000000c1'')
       = Response 200 (JSON_Complaint (noise\<lparr>Resolved := True\<rparr>))
   \<and> response (resolveComplaintHandler (upEnv 0 0)
                 (store (resolveComplaintHandler (upEnv 0 0) db0 ''0000000000000000000000c1''))
                 ''0000000000000000000000c1'')
       = Response 200 (JSON_Complaint (noise\<lparr>Resolved := True\<rparr>))
   \<and> complaints (store (resolveComplaintHandler (upEnv 0 0) db0 ''0000000000000000000000c1''))
       = [noise\<lparr>Resolved := True\<rparr>, leak]
   \<and> store (resolveComplaintHandler (upEnv 0 0)
                 (store (resolveComplaintHandler (upEnv 0 0) db0 ''0000000000000000000000c1''))
                 ''0000000000000000000000c1'')
       = store (resolveComplaintHandler (upEnv 0 0) db0 ''0000000000000000000000c1'')"
proof -
  have a: "complaints db0 = [] @ noise # [leak]" by (simp add: db0_def)
  have b: "\<forall>x\<in>set []. Complaint.ID x \<noteq> (0xC1 :: ObjectID)" by simp
  have c: "Complaint.ID noise = 0xC1" "\<not> Resolved noise" by (simp_all add: noise_def)
  have d: "\<not> roundTripFails (upEnv 0 0) 0" "\<not> roundTripFails (upEnv 0 0) 1"
    by (simp_all add: upEnv_def)
  from resolve_twice [OF ObjectIDFromHex_c1 a b c(1) d d refl refl] ObjectIDFromHex_c1 a c
  show ?thesis by simp
qed

section \<open>The resolved field only goes from false to true\<close>

text \<open>
  C6. Over any sequence of requests, served with any environments from any database, every
  complaint stored at the start is still stored at its place with the same identifier, and
  one whose \<open>resolved\<close> field was true is unchanged: its field is still true. A request
  that makes the collection longer has appended one complaint, whose \<open>resolved\<close> field is
  false and whose identifier no stored complaint carried.
\<close>

theorem resolved_never_reverts:
  "(i < length (complaints db) \<longrightarrow>
      i < length (complaints (serveAll db reqs))
      \<and> Complaint.ID (complaints (serveAll db reqs) ! i) = Complaint.ID (complaints db ! i)
      \<and> (Resolved (complaints db ! i) \<longrightarrow>
           Resolved (complaints (serveAll db reqs) ! i)
           \<and> complaints (serveAll db reqs) ! i = complaints db ! i))
   \<and> (length (complaints db) < length (complaints (store (serve env db req))) \<longrightarrow>
        \<not> Resolved (last (complaints (store (serve env db req))))
        \<and> Complaint.ID (last (complaints (store (serve env db req))))
            \<notin> Complaint.ID ` set (complaints db)
        \<and> butlast (complaints (store (serve env db req))) = complaints db)"
proof -
  have "i < length (complaints db) \<longrightarrow>
      i < length (complaints (serveAll db reqs))
      \<and> Complaint.ID (complaints (serveAll db reqs) ! i) = Complaint.ID (complaints db ! i)
      \<and> (Resolved (complaints db ! i) \<longrightarrow>
           Resolved (complaints (serveAll db reqs) ! i)
           \<and> complaints (serveAll db reqs) ! i = complaints db ! i)"
  proof
    assume i: "i < length (complaints db)"
    from serveAll_keepsResolved [of db reqs] i
    have len: "i < length (complaints (serveAll db reqs))"
      and "complaints (serveAll db reqs) ! i = complaints db ! i
           \<or> complaints (serveAll db reqs) ! i = (complaints db ! i)\<lparr>Resolved := True\<rparr>"
      by (auto simp: keepsResolved_def)
    then show "i < length (complaints (serveAll db reqs))
      \<and> Complaint.ID (complaints (serveAll db reqs) ! i) = Complaint.ID (complaints db ! i)
      \<and> (Resolved (complaints db ! i) \<longrightarrow>
           Resolved (complaints (serveAll db reqs) ! i)
           \<and> complaints (serveAll db reqs) ! i = complaints db ! i)"
      by auto
  qed
  with serve_creates_unresolved [of db env req] show ?thesis by blast
qed

theorem resolved_never_reverts_witness:
  "1 < length (complaints db0) \<and> Resolved (complaints db0 ! 1)
   \<and> complaints (serveAll db0 sampleRun) = [noise\<lparr>Resolved := True\<rparr>, leak, filed]
   \<and> Resolved (complaints (serveAll db0 sampleRun) ! 1)
   \<and> complaints (serveAll db0 sampleRun) ! 1 = complaints db0 ! 1
   \<and> length (complaints db0)
       < length (complaints (store (serve (upEnv 0xC3 0) db0 (SubmitComplaint (Inr forgedComplaint)))))
   \<and> \<not> Resolved (last (complaints
           (store (serve (upEnv 0xC3 0) db0 (SubmitComplaint (Inr forgedComplaint))))))"
proof -
  have a: "1 < length (complaints db0) \<and> Resolved (complaints db0 ! 1)"
    by (simp add: db0_def leak_def)
  have b: "length (complaints db0)
       < length (complaints (store (serve (upEnv 0xC3 0) db0 (SubmitComplaint (Inr forgedComplaint)))))"
    by (simp add: submitComplaintHandler_def storage_defs Let_def upEnv_def
                db0_def noise_def leak_def forgedComplaint_def alice_def bob_def)
  from resolved_never_reverts [of 1 db0 sampleRun "upEnv 0xC3 0" "SubmitComplaint (Inr forgedComplaint)"]
       a b sampleRun_result
  show ?thesis by simp
qed

section \<open>Login\<close>

text \<open>
  C7. A secret code that no stored user carries is answered 404. When users carry the code
  and the lookup completes, the answer is the first of them in the collection. A user just
  returned by a registration, whose code no earlier user carries, is returned by a login
  with that code exactly as registration returned it. Login never changes the database.
\<close>

theorem login_outcomes:
  "((\<forall>x\<in>set (users db). SecretCode x \<noteq> secretCode) \<longrightarrow>
      response (loginHandler env db secretCode) = Response 404 (Text ''User not found''))
   \<and> (\<not> roundTripFails env 0 \<and> users db = pre @ u # post
        \<and> (\<forall>x\<in>set pre. SecretCode x \<noteq> secretCode) \<and> SecretCode u = secretCode \<longrightarrow>
        response (loginHandler env db secretCode) = Response 200 (JSON_User u))
   \<and> (response (registerHandler env0 db (Inr decoded)) = Response 200 (JSON_User new)
        \<and> (\<forall>x\<in>set (users db). SecretCode x \<noteq> SecretCode new)
        \<and> \<not> roundTripFails env 0 \<longrightarrow>
        response (loginHandler env (store (registerHandler env0 db (Inr decoded))) (SecretCode new))
          = Response 200 (JSON_User new))
   \<and> store (loginHandler env db secretCode) = db"
proof -
  have a: "(\<forall>x\<in>set (users db). SecretCode x \<noteq> secretCode) \<longrightarrow>
      response (loginHandler env db secretCode) = Response 404 (Text ''User not found'')"
    by (auto simp: loginHandler_def storage_defs response_defs find_none split: option.splits)
  have b: "\<not> roundTripFails env 0 \<and> users db = pre @ u # post
        \<and> (\<forall>x\<in>set pre. SecretCode x \<noteq> secretCode) \<and> SecretCode u = secretCode \<longrightarrow>
        response (loginHandler env db secretCode) = Response 200 (JSON_User u)"
    by (auto simp: loginHandler_def storage_defs response_defs find_first)
  have c: "response (registerHandler env0 db (Inr decoded)) = Response 200 (JSON_User new)
        \<and> (\<forall>x\<in>set (users db). SecretCode x \<noteq> SecretCode new)
        \<and> \<not> roundTripFails env 0 \<longrightarrow>
        response (loginHandler env (store (registerHandler env0 db (Inr decoded))) (SecretCode new))
          = Response 200 (JSON_User new)"
  proof (intro impI, elim conjE)
    assume r: "response (registerHandler env0 db (Inr decoded)) = Response 200 (JSON_User new)"
      and f: "\<forall>x\<in>set (users db). SecretCode x \<noteq> SecretCode new"
      and up: "\<not> roundTripFails env 0"
    from r have "users (store (registerHandler env0 db (Inr decoded))) = users db @ new # []"
      by (auto simp: registerHandler_def storage_defs response_defs Let_def split: if_splits)
    with f up show "response (loginHandler env (store (registerHandler env0 db (Inr decoded)))
                      (SecretCode new)) = Response 200 (JSON_User new)"
      by (simp add: loginHandler_def storage_defs response_defs find_first)
  qed
  have d: "store (loginHandler env db secretCode) = db"
    by (simp add: loginHandler_def split: sum.splits)
  from a b c d show ?thesis by blast
qed

theorem login_outcomes_witness:
  "response (loginHandler (upEnv 0 0) db0 ''999999'') = Response 404 (Text ''User not found'')
   \<and> SecretCode alice = ''000007'' \<and> SecretCode bob = ''000007''
   \<and> response (loginHandler (upEnv 0 0) db0 ''000007'') = Response 200 (JSON_User alice)
   \<and> response (registerHandler (upEnv 0x0C 4217) db0 (Inr forgedUser))
       = Response 200 (JSON_User carol)
   \<and> response (loginHandler (upEnv 0 0)
                 (store (registerHandler (upEnv 0x0C 4217) db0 (Inr forgedUser))) ''004217'')
       = Response 200 (JSON_User carol)"
proof -
  have a: "\<forall>x\<in>set (users db0). SecretCode x \<noteq> ''999999''"
    by (simp add: db0_def alice_def bob_def)
  have b: "\<not> roundTripFails (upEnv 0 0) 0 \<and> users db0 = [] @ alice # [bob]
           \<and> (\<forall>x\<in>set []. SecretCode x \<noteq> ''000007'') \<and> SecretCode alice = ''000007''
           \<and> SecretCode bob = ''000007''"
    by (simp add: upEnv_def db0_def alice_def bob_def)
  have c: "response (registerHandler (upEnv 0x0C 4217) db0 (Inr forgedUser))
             = Response 200 (JSON_User carol)"
    by (simp add: registerHandler_def InsertOne_def generateSecretCode_4217 carol_def
                  forgedUser_def db0_def alice_def bob_def Let_def response_defs)
       (simp add: upEnv_def)
  have d: "(\<forall>x\<in>set (users db0). SecretCode x \<noteq> SecretCode carol) \<and> SecretCode carol = ''004217''"
    by (simp add: db0_def alice_def bob_def carol_def)
  from login_outcomes [where secretCode = "''999999''" and env = "upEnv 0 0" and db = db0]
       login_outcomes [where secretCode = "''000007''" and env = "upEnv 0 0" and db = db0
                        and pre = "[]" and u = alice and post = "[bob]"]
       login_outcomes [where env = "upEnv 0 0" and db = db0 and ?env0.0 = "upEnv 0x0C 4217"
                        and decoded = forgedUser and new = carol]
       a b c d
  show ?thesis by simp
qed

section \<open>Complaints of one user\<close>



section \<open>Fields the server manages\<close>

text \<open>
  C9. Whatever \<open>id\<close>, \<open>secretCode\<close> and \<open>complaints\<close> a registration body sets, the handler
  does the same as for the body without them: same response, same database, same storage
  calls. The user it stores, when the insert goes through, has the generated identifier, the
  generated code and no complaints. Likewise whatever \<open>id\<close> and \<open>resolved\<close> a submission
  body sets, the handler does the same, and the complaint it stores has the generated
  identifier and \<open>resolved\<close> false.
\<close>

theorem server_managed_fields_overwritten:
  "registerHandler env db (Inr (decoded\<lparr>User.ID := i, SecretCode := s, Complaints := cs\<rparr>))
     = registerHandler env db (Inr decoded)
   \<and> users (store (registerHandler env db (Inr decoded)))
     = (if \<not> roundTripFails env 0 \<and> NewObjectID env \<notin> User.ID ` set (users db)
        then users db @ [\<lparr>User.ID = NewObjectID env, SecretCode = generateSecretCode env,
                          Name = Name decoded, Email = Email decoded, Complaints = []\<rparr>]
        else users db)
   \<and> submitComplaintHandler env db (Inr (sent\<lparr>Complaint.ID := j, Resolved := r\<rparr>))
     = submitComplaintHandler env db (Inr sent)
   \<and> complaints (store (submitComplaintHandler env db (Inr sent)))
     = (if \<not> roundTripFails env 0 \<and> NewObjectID env \<notin> Complaint.ID ` set (complaints db)
        then complaints db @ [\<lparr>Complaint.ID = NewObjectID env, Title = Title sent,
                               Summary = Summary sent, Rating = Rating sent,
                               Resolved = False, UserID = UserID sent\<rparr>]
        else complaints db)"
proof -
  have a: "registerHandler env db (Inr (decoded\<lparr>User.ID := i, SecretCode := s, Complaints := cs\<rparr>))
     = registerHandler env db (Inr decoded)"
    by (simp add: registerHandler_def)
  have b: "users (store (registerHandler env db (Inr decoded)))
     = (if \<not> roundTripFails env 0 \<and> NewObjectID env \<notin> User.ID ` set (users db)
        then users db @ [\<lparr>User.ID = NewObjectID env, SecretCode = generateSecretCode env,
                          Name = Name decoded, Email = Email decoded, Complaints = []\<rparr>]
        else users db)"
    by (cases decoded) (simp add: registerHandler_def InsertOne_def Let_def)
  have c: "submitComplaintHandler env db (Inr (sent\<lparr>Complaint.ID := j, Resolved := r\<rparr>))
     = submitComplaintHandler env db (Inr sent)"
    by (simp add: submitComplaintHandler_def)
  have d: "complaints (store (submitComplaintHandler env db (Inr sent)))
     = (if \<not> roundTripFails env 0 \<and> NewObjectID env \<notin> Complaint.ID ` set (complaints db)
        then complaints db @ [\<lparr>Complaint.ID = NewObjectID env, Title = Title sent,
                               Summary = Summary sent, Rating = Rating sent,
                               Resolved = False, UserID = UserID sent\<rparr>]
        else complaints db)"
    by (cases sent)
       (simp add: submitComplaintHandler_def InsertOne_def FindOne_def UpdateOne_def Let_def
             split: option.splits)
  from a b c d show ?thesis by blast
qed

theorem server_managed_fields_overwritten_witness:
  "User.ID forgedUser = User.ID bob \<and> SecretCode forgedUser = ''letmein''
   \<and> Complaints forgedUser = [0xC2]
   \<and> users (store (registerHandler (upEnv 0x0C 4217) db0 (Inr forgedUser)))
       = [alice, bob, carol]
   \<and> User.ID carol = 0x0C \<and> SecretCode carol = ''004217'' \<and> Complaints carol = []
   \<and> registerHandler (upEnv 0x0C 4217) db0 (Inr forgedUser)
       = registerHandler (upEnv 0x0C 4217) db0
           (Inr \<lparr>User.ID = 0, SecretCode = [], Name = ''C'', Email = ''c@x.com'',
                 Complaints = []\<rparr>)
   \<and> Complaint.ID forgedComplaint = Complaint.ID noise \<and> Resolved forgedComplaint
   \<and> complaints (store (submitComplaintHandler (upEnv 0xC3 0) db0 (Inr forgedComplaint)))
       = [noise, leak, filed]
   \<and> Complaint.ID filed = 0xC3 \<and> \<not> Resolved filed
   \<and> submitComplaintHandler (upEnv 0xC3 0) db0 (Inr forgedComplaint)
       = submitComplaintHandler (upEnv 0xC3 0) db0
           (Inr \<lparr>Complaint.ID = 0, Title = ''N'', Summary = ''n'', Rating = 5,
                 Resolved = False, UserID = 0x0A\<rparr>)"
proof -
  have a: "\<not> roundTripFails (upEnv 0x0C 4217) 0
           \<and> 0x0C \<notin> User.ID ` set (users db0)
           \<and> NewObjectID (upEnv 0x0C 4217) = 0x0C"
    by (simp add: upEnv_def db0_def alice_def bob_def)
  have b: "\<not> roundTripFails (upEnv 0xC3 0) 0
           \<and> 0xC3 \<notin> Complaint.ID ` set (complaints db0)
           \<and> NewObjectID (upEnv 0xC3 0) = 0xC3"
    by (simp add: upEnv_def db0_def noise_def leak_def)
  have c: "forgedUser = \<lparr>User.ID = 0, SecretCode = [], Name = ''C'', Email = ''c@x.com'',
                 Complaints = []\<rparr>\<lparr>User.ID := 0x0B, SecretCode := ''letmein'',
                                   Complaints := [0xC2]\<rparr>"
    by (simp add: forgedUser_def)
  have d: "forgedComplaint = \<lparr>Complaint.ID = 0, Title = ''N'', Summary = ''n'', Rating = 5,
                 Resolved = False, UserID = 0x0A\<rparr>\<lparr>Complaint.ID := 0xC1, Resolved := True\<rparr>"
    by (simp add: forgedComplaint_def)
  have r: "registerHandler (upEnv 0x0C 4217) db0 (Inr forgedUser)
       = registerHandler (upEnv 0x0C 4217) db0
           (Inr \<lparr>User.ID = 0, SecretCode = [], Name = ''C'', Email = ''c@x.com'',
                 Complaints = []\<rparr>)"
    unfolding c
    using server_managed_fields_overwritten
            [where env = "upEnv 0x0C 4217" and db = db0 and i = "0x0B" and s = "''letmein''"
               and cs = "[0xC2]"
               and decoded = "\<lparr>User.ID = 0, SecretCode = [], Name = ''C'',
                                Email = ''c@x.com'', Complaints = []\<rparr>"]
    by blast
  have q: "submitComplaintHandler (upEnv 0xC3 0) db0 (Inr forgedComplaint)
       = submitComplaintHandler (upEnv 0xC3 0) db0
           (Inr \<lparr>Complaint.ID = 0, Title = ''N'', Summary = ''n'', Rating = 5,
                 Resolved = False, UserID = 0x0A\<rparr>)"
    unfolding d
    using server_managed_fields_overwritten
            [where env = "upEnv 0xC3 0" and db = db0 and j = "0xC1" and r = True
               and sent = "\<lparr>Complaint.ID = 0, Title = ''N'', Summary = ''n'', Rating = 5,
                             Resolved = False, UserID = 0x0A\<rparr>"]
    by blast
  have "users (store (registerHandler (upEnv 0x0C 4217) db0 (Inr forgedUser)))
       = users db0 @ [\<lparr>User.ID = 0x0C, SecretCode = ''004217'', Name = Name forgedUser,
                        Email = Email forgedUser, Complaints = []\<rparr>]"
    using server_managed_fields_overwritten
            [where env = "upEnv 0x0C 4217" and db = db0 and decoded = forgedUser,
             THEN conjunct2, THEN conjunct1]
          a generateSecretCode_4217 [of "0x0C"]
    by simp
  then have u: "users (store (registerHandler (upEnv 0x0C 4217) db0 (Inr forgedUser)))
       = [alice, bob, carol]"
    by (simp add: db0_def carol_def forgedUser_def)
  have "complaints (store (submitComplaintHandler (upEnv 0xC3 0) db0 (Inr forgedComplaint)))
       = complaints db0 @ [\<lparr>Complaint.ID = 0xC3, Title = Title forgedComplaint,
                             Summary = Summary forgedComplaint,
                             Rating = Rating forgedComplaint,
                             Resolved = False, UserID = UserID forgedComplaint\<rparr>]"
    using server_managed_fields_overwritten
            [where env = "upEnv 0xC3 0" and db = db0 and sent = forgedComplaint,
             THEN conjunct2, THEN conjunct2, THEN conjunct2]
          b
    by simp
  then have v: "complaints (store (submitComplaintHandler (upEnv 0xC3 0) db0 (Inr forgedComplaint)))
       = [noise, leak, filed]"
    by (simp add: db0_def filed_def forgedComplaint_def)
  from r q u v show ?thesis
    by (simp add: forgedUser_def bob_def carol_def forgedComplaint_def noise_def filed_def)
qed

section \<open>Resolving a complaint: the error paths\<close>

text \<open>
  C10. A \<open>complaintId\<close> that does not parse is answered 400 with no storage call at all; one
  that parses while no stored complaint carries the identifier is answered 404 after the
  lookup alone. Whenever resolve answers 400 or 404 the database is as before and no
  update was issued. An update is issued only after the identifier has parsed and the
  lookup has found a stored complaint carrying it.
\<close>

theorem resolve_error_leaves_store:
  "(ObjectIDFromHex complaintID = None \<longrightarrow>
      resolveComplaintHandler env db complaintID
        = \<lparr>response = Response 400 (Text ''Invalid complaint ID''), store = db, issued = []\<rparr>)
   \<and> (ObjectIDFromHex complaintID = Some oid
        \<and> (\<forall>c\<in>set (complaints db). Complaint.ID c \<noteq> oid) \<longrightarrow>
        resolveComplaintHandler env db complaintID
          = \<lparr>response = Response 404 (Text ''Complaint not found''), store = db,
             issued = [FindOneOp ''complaints'']\<rparr>)
   \<and> (status (response (resolveComplaintHandler env db complaintID)) \<in> {400, 404} \<longrightarrow>
        store (resolveComplaintHandler env db complaintID) = db
        \<and> UpdateOneOp ''complaints'' \<notin> set (issued (resolveComplaintHandler env db complaintID)))
   \<and> (UpdateOneOp ''complaints'' \<in> set (issued (resolveComplaintHandler env db complaintID)) \<longrightarrow>
        (\<exists>oid c. ObjectIDFromHex complaintID = Some oid \<and> \<not> roundTripFails env 0
                \<and> c \<in> set (complaints db) \<and> Complaint.ID c = oid))"
  by (auto simp: resolveComplaintHandler_def storage_defs response_defs find_none Let_def
           split: option.splits dest: find_SomeD)

theorem resolve_error_leaves_store_witness:
  "ObjectIDFromHex ''c1'' = None
   \<and> resolveComplaintHandler (upEnv 0 0) db0 ''c1''
       = \<lparr>response = Response 400 (Text ''Invalid complaint ID''), store = db0, issued = []\<rparr>
   \<and> ObjectIDFromHex ''0000000000000000000000c9'' = Some 0xC9
   \<and> resolveComplaintHandler (upEnv 0 0) db0 ''0000000000000000000000c9''
       = \<lparr>response = Response 404 (Text ''Complaint not found''), store = db0,
          issued = [FindOneOp ''complaints'']\<rparr>
   \<and> status (response (resolveComplaintHandler downEnv db0 ''0000000000000000000000c1'')) = 404
   \<and> store (resolveComplaintHandler downEnv db0 ''0000000000000000000000c1'') = db0
   \<and> UpdateOneOp ''complaints''
       \<in> set (issued (resolveComplaintHandler (upEnv 0 0) db0 ''0000000000000000000000c1''))
   \<and> (\<exists>oid c. ObjectIDFromHex ''0000000000000000000000c1'' = Some oid
           \<and> \<not> roundTripFails (upEnv 0 0) 0
           \<and> c \<in> set (complaints db0) \<and> Complaint.ID c = oid)"
proof -
  have a: "\<forall>c\<in>set (complaints db0). Complaint.ID c \<noteq> 0xC9"
    by (simp add: db0_def noise_def leak_def)
  have b: "status (response (resolveComplaintHandler downEnv db0 ''0000000000000000000000c1''))
             = 404"
    by (simp add: resolveComplaintHandler_def ObjectIDFromHex_c1 FindOne_def downEnv_def
                  response_defs)
  have c: "UpdateOneOp ''complaints''
       \<in> set (issued (resolveComplaintHandler (upEnv 0 0) db0 ''0000000000000000000000c1''))"
    by (simp add: resolveComplaintHandler_def ObjectIDFromHex_c1 storage_defs upEnv_def
                  db0_def noise_def leak_def Let_def)
  from resolve_error_leaves_store [where complaintID = "''c1''" and env = "upEnv 0 0"
                        and db = db0 and oid = 0]
       resolve_error_leaves_store [where complaintID = "''0000000000000000000000c9''"
                        and oid = "0xC9" and env = "upEnv 0 0" and db = db0]
       resolve_error_leaves_store [where complaintID = "''0000000000000000000000c1''"
                        and env = downEnv and db = db0 and oid = 0]
       resolve_error_leaves_store [where complaintID = "''0000000000000000000000c1''"
                        and env = "upEnv 0 0" and db = db0 and oid = 0]
       a b c ObjectIDFromHex_short ObjectIDFromHex_c9
  show ?thesis by simp
qed

end
